theory Spec2Isabelle
  imports Complex_Main
begin

section \<open>Calendar selection engine (utils/composition/calendar.ts)\<close>

subsection \<open>Dates and the date utilities\<close>

text \<open>
  A JS \<open>Date\<close>, read through the getters the engine uses: year, month index (0 to 11),
  day of the month, hours and minutes. \<open>new Date(d)\<close> copies a date and is the identity
  here.
\<close>

record Date =
  d_year :: int
  d_month :: int
  d_day :: int
  d_hours :: int
  d_minutes :: int

text \<open>
  Modelled from the spec: the date utilities of \<open>utils/date-utils\<close> are imported by
  calendar.ts and are not part of the sources at hand. The spec lists them as pure
  functions that extract year, month, hour and minute from a date.
  \<open>getDateHours()\<close> and \<open>getDateMinutes()\<close> without an argument read the clock; the
  callers below pass the clock reading \<open>now\<close> explicitly.
\<close>

definition getDateYear :: "Date \<Rightarrow> int" where
  "getDateYear d = d_year d"

definition getDateMonth :: "Date \<Rightarrow> int" where
  "getDateMonth d = d_month d"

definition getDateHours :: "Date \<Rightarrow> int" where
  "getDateHours d = d_hours d"

definition getDateMinutes :: "Date \<Rightarrow> int" where
  "getDateMinutes d = d_minutes d"

text \<open>
  Modelled from the spec: \<open>isDateBefore\<close>, \<open>isDateAfter\<close> and \<open>isDateEqual\<close> of the
  missing \<open>utils/date-utils\<close> compare two dates at exact-date granularity: the calendar
  day decides, the time of day is ignored (the engine compares the cells of the calendar
  grid with stored values that carry a time of day).
\<close>

definition isDateBefore :: "Date \<Rightarrow> Date \<Rightarrow> bool" where
  "isDateBefore a b \<longleftrightarrow>
     d_year a < d_year b \<or>
     (d_year a = d_year b \<and>
       (d_month a < d_month b \<or> (d_month a = d_month b \<and> d_day a < d_day b)))"

definition isDateAfter :: "Date \<Rightarrow> Date \<Rightarrow> bool" where
  "isDateAfter a b \<longleftrightarrow> isDateBefore b a"

definition isDateEqual :: "Date \<Rightarrow> Date \<Rightarrow> bool" where
  "isDateEqual a b \<longleftrightarrow> d_year a = d_year b \<and> d_month a = d_month b \<and> d_day a = d_day b"

text \<open>
  Modelled from the spec: \<open>setDateTime\<close> of the missing \<open>utils/date-utils\<close> constructs a
  new date with the time of day replaced. The hour and the minute arrive as JS values
  that may be \<open>undefined\<close> (an index read past the end of an array); an undefined
  component replaces nothing. The time controls supply hours 0 to 23 and minutes 0 to
  59, for which a JS date carries nothing over into the day.
\<close>

definition setDateTime :: "Date \<Rightarrow> int option \<Rightarrow> int option \<Rightarrow> Date" where
  "setDateTime date h m =
     (let dateCopy = (case h of None \<Rightarrow> date | Some hv \<Rightarrow> date\<lparr>d_hours := hv\<rparr>)
      in (case m of None \<Rightarrow> dateCopy | Some mv \<Rightarrow> dateCopy\<lparr>d_minutes := mv\<rparr>))"

text \<open>
  Modelled from the spec: \<open>setDateMonthOrYear\<close> of the missing \<open>utils/date-utils\<close>
  constructs a new date with month and year replaced.
\<close>

definition setDateMonthOrYear :: "Date \<Rightarrow> int \<Rightarrow> int \<Rightarrow> Date" where
  "setDateMonthOrYear date m y = date\<lparr>d_month := m, d_year := y\<rparr>"

subsection \<open>Values, configuration and state\<close>

text \<open>\<open>InternalModuleValue = Date | Date[] | null\<close>.\<close>

datatype InternalModuleValue = Null | DateV Date | DatesV "Date list"

text \<open>The hour or minute state, \<open>number | number[]\<close>.\<close>

datatype TimeState = Num int | Nums "int list"

text \<open>\<open>ITimeValue\<close> and the start time \<open>ITimeValue | ITimeValue[] | null\<close>.\<close>

record ITimeValue =
  tv_hours :: int
  tv_minutes :: int

datatype StartTime = NoStartTime | StartTimeV ITimeValue | StartTimesV "ITimeValue list"

text \<open>
  The configuration read by \<open>useCalendar\<close> (type \<open>UseCalendar\<close>). Optional dates are
  \<open>None\<close> when the prop is absent; a date given as a string stands for the date it
  denotes. Of the filters only the month list is read.
\<close>

record CalendarProps =
  range_prop :: bool
  startDate :: "Date option"
  startTime :: StartTime
  internalModelValue :: InternalModuleValue
  maxDate :: "Date option"
  minDate :: "Date option"
  filters_months :: "int list"
  yearRange :: "int list"
  disabledDates :: "Date list"
  autoApply :: bool
  monthPicker :: bool
  timePicker :: bool

text \<open>The refs of \<open>useCalendar\<close>.\<close>

record Calendar =
  today :: Date
  hoveredDate :: "Date option"
  month :: int
  year :: int
  hours :: TimeState
  minutes :: TimeState

text \<open>\<open>ICalendarDay\<close> (the optional style tags are not read by the engine).\<close>

record ICalendarDay =
  day_text :: int
  day_value :: Date
  day_current :: bool

text \<open>What the engine emits to its host.\<close>

datatype Emit = UpdateInternalModelValue InternalModuleValue | AutoApply

text \<open>
  \<open>TypeError\<close>: JS raises (a method or property read on a value that has none).
  \<open>WrongShape\<close>: a cast (\<open>as Date\<close>, \<open>as number\<close>) hands a value of the other shape
  to a date utility; what the utility makes of it is described nowhere and the model
  stops there.
\<close>

datatype fault = TypeError | WrongShape

text \<open>An index read \<open>xs[i]\<close>: \<open>undefined\<close> past the end.\<close>

definition js_index :: "'a list \<Rightarrow> nat \<Rightarrow> 'a option" where
  "js_index xs i = (if i < length xs then Some (xs ! i) else None)"

text \<open>
  Modelled from the spec: the type guards of the missing \<open>utils/type-guard\<close>.
  \<open>isNumberArray\<close> and \<open>isModelValueRange\<close> tell an array from a scalar,
  \<open>isTimeArr\<close> likewise for the start time; \<open>isRange\<close> holds of a range pair, an array
  of exactly two dates.
\<close>

definition isNumberArray :: "TimeState \<Rightarrow> bool" where
  "isNumberArray t = (case t of Num _ \<Rightarrow> False | Nums _ \<Rightarrow> True)"

definition isModelValueRange :: "InternalModuleValue \<Rightarrow> bool" where
  "isModelValueRange v = (case v of DatesV _ \<Rightarrow> True | _ \<Rightarrow> False)"

definition isRange :: "InternalModuleValue \<Rightarrow> bool" where
  "isRange v = (case v of DatesV ds \<Rightarrow> length ds = 2 | _ \<Rightarrow> False)"

definition isTimeArr :: "StartTime \<Rightarrow> bool" where
  "isTimeArr t = (case t of StartTimesV _ \<Rightarrow> True | _ \<Rightarrow> False)"

text \<open>The scalar behind \<open>hours.value\<close> once narrowed to \<open>number\<close>, and \<open>hours.value[i]\<close>.\<close>

definition asNumber :: "TimeState \<Rightarrow> int option" where
  "asNumber t = (case t of Num n \<Rightarrow> Some n | Nums _ \<Rightarrow> None)"

definition timeAt :: "TimeState \<Rightarrow> nat \<Rightarrow> int option" where
  "timeAt t i = (case t of Num _ \<Rightarrow> None | Nums ns \<Rightarrow> js_index ns i)"

subsection \<open>isDisabled\<close>

definition outOfYearRange :: "CalendarProps \<Rightarrow> int \<Rightarrow> bool" where
  "outOfYearRange props dateYear \<longleftrightarrow>
     (case js_index (yearRange props) 0 of None \<Rightarrow> False | Some lo \<Rightarrow> dateYear < lo) \<or>
     (case js_index (yearRange props) 1 of None \<Rightarrow> False | Some hi \<Rightarrow> dateYear > hi)"

definition isDisabled :: "CalendarProps \<Rightarrow> Date \<Rightarrow> bool" where
  "isDisabled props date =
     (let aboveMax = (case maxDate props of Some mx \<Rightarrow> isDateAfter date mx | None \<Rightarrow> False);
          bellowMin = (case minDate props of Some mn \<Rightarrow> isDateBefore date mn | None \<Rightarrow> False);
          inDisableArr = list_ex (\<lambda>disabledDate. isDateEqual disabledDate date) (disabledDates props);
          disabledMonths = (if length (filters_months props) \<noteq> 0 then filters_months props else []);
          inDisabledMonths = (getDateMonth date \<in> set disabledMonths);
          dateYear = getDateYear date
      in aboveMax \<or> bellowMin \<or> inDisableArr \<or> inDisabledMonths \<or> outOfYearRange props dateYear)"

subsection \<open>selectDate\<close>

text \<open>
  \<open>modelValue.value ? (modelValue.value as Date[]).slice() : []\<close>: a single date has no
  \<open>slice\<close>, and JS raises.
\<close>

definition sliceModelValue :: "InternalModuleValue \<Rightarrow> fault + Date list" where
  "sliceModelValue v = (case v of Null \<Rightarrow> Inr [] | DatesV ds \<Rightarrow> Inr ds | DateV _ \<Rightarrow> Inl TypeError)"

text \<open>
  The insertion of the clicked date into the snapshot: a complete pair restarts empty;
  the first slot is filled if empty; a date before the first endpoint is put in front
  (\<open>unshift\<close>), any other is written to index 1 (which extends an array of length one).
\<close>

definition insertRangeDate :: "Date list \<Rightarrow> Date \<Rightarrow> Date list" where
  "insertRangeDate snapshot clicked =
     (let rangeDate = (if length snapshot = 2 then [] else snapshot)
      in (case rangeDate of
            [] \<Rightarrow> [clicked]
          | first # rest \<Rightarrow>
              if isDateBefore clicked first then clicked # rangeDate
              else first # clicked # tl rest))"

text \<open>
  The time of day re-applied: index 0 to the first endpoint alone when there is no second
  one, else index 0 to the first and index 1 to the second.
\<close>

definition applyRangeTime :: "TimeState \<Rightarrow> TimeState \<Rightarrow> Date list \<Rightarrow> Date list" where
  "applyRangeTime hs ms rangeDate =
     (case rangeDate of
        [] \<Rightarrow> []
      | [first] \<Rightarrow> [setDateTime first (timeAt hs 0) (timeAt ms 0)]
      | first # second # rest \<Rightarrow>
          setDateTime first (timeAt hs 0) (timeAt ms 0)
            # setDateTime second (timeAt hs 1) (timeAt ms 1) # rest)"

definition selectDate :: "CalendarProps \<Rightarrow> Calendar \<Rightarrow> ICalendarDay \<Rightarrow> fault + Calendar \<times> Emit list" where
  "selectDate props s day =
     (if isDisabled props (day_value day) then Inr (s, [])
      else if \<not> range_prop props \<and> \<not> isNumberArray (hours s) \<and> \<not> isNumberArray (minutes s) then
        Inr (s, UpdateInternalModelValue
                  (DateV (setDateTime (day_value day) (asNumber (hours s)) (asNumber (minutes s))))
                # (if autoApply props then [AutoApply] else []))
      else if isNumberArray (hours s) \<and> isNumberArray (minutes s) then
        (case sliceModelValue (internalModelValue props) of
           Inl e \<Rightarrow> Inl e
         | Inr snapshot \<Rightarrow>
             (let rangeDate = applyRangeTime (hours s) (minutes s)
                                (insertRangeDate snapshot (day_value day))
              in Inr (s, UpdateInternalModelValue (DatesV rangeDate)
                         # (if 2 \<le> length rangeDate \<and> autoApply props then [AutoApply] else []))))
      else Inr (s, []))"

subsection \<open>Mapping the model value onto month, year and time\<close>

definition assignMonthAndYear :: "Date \<Rightarrow> Calendar \<Rightarrow> Calendar" where
  "assignMonthAndYear date s = s\<lparr>month := getDateMonth date, year := getDateYear date\<rparr>"

definition mapInternalModuleValues :: "CalendarProps \<Rightarrow> Calendar \<Rightarrow> Calendar" where
  "mapInternalModuleValues props s =
     (if internalModelValue props \<noteq> Null then
        (if isModelValueRange (internalModelValue props) then
           (case internalModelValue props of
              DatesV [first, second] \<Rightarrow>
                (assignMonthAndYear first s)
                  \<lparr>hours := Nums [getDateHours first, getDateHours second],
                   minutes := Nums [getDateMinutes first, getDateMinutes second]\<rparr>
            | _ \<Rightarrow> s)
         else
           (case internalModelValue props of
              DateV d \<Rightarrow>
                (assignMonthAndYear d s)
                  \<lparr>hours := Num (getDateHours d), minutes := Num (getDateMinutes d)\<rparr>
            | _ \<Rightarrow> s))
      else s)"

subsection \<open>Construction and mounting\<close>

text \<open>The refs as \<open>useCalendar\<close> creates them; \<open>now\<close> is the clock reading \<open>new Date()\<close>.\<close>

definition useCalendar :: "CalendarProps \<Rightarrow> Date \<Rightarrow> Calendar" where
  "useCalendar props now =
     \<lparr>today = now,
      hoveredDate = None,
      month = getDateMonth now,
      year = getDateYear now,
      hours = (if range_prop props then Nums [getDateHours now, getDateHours now]
               else Num (getDateHours now)),
      minutes = (if range_prop props then Nums [getDateMinutes now, getDateMinutes now]
                 else Num (getDateMinutes now))\<rparr>"

text \<open>
  \<open>assignStartTime\<close>: an array start time is read at indices 0 and 1 (a property read on
  \<open>undefined\<close> raises), anything else as one time value (on \<open>null\<close> the read raises).
\<close>

definition assignStartTime :: "CalendarProps \<Rightarrow> Calendar \<Rightarrow> fault + Calendar" where
  "assignStartTime props s =
     (if isTimeArr (startTime props) then
        (case startTime props of
           StartTimesV ts \<Rightarrow>
             (case (js_index ts 0, js_index ts 1) of
                (Some t0, Some t1) \<Rightarrow>
                  Inr (s\<lparr>hours := Nums [tv_hours t0, tv_hours t1],
                         minutes := Nums [tv_minutes t0, tv_minutes t1]\<rparr>)
              | _ \<Rightarrow> Inl TypeError)
         | _ \<Rightarrow> Inl TypeError)
      else
        (case startTime props of
           StartTimeV t \<Rightarrow> Inr (s\<lparr>hours := Num (tv_hours t), minutes := Num (tv_minutes t)\<rparr>)
         | _ \<Rightarrow> Inl TypeError))"

definition onMounted :: "CalendarProps \<Rightarrow> Calendar \<Rightarrow> fault + Calendar" where
  "onMounted props s =
     (let s1 = mapInternalModuleValues props s
      in if internalModelValue props = Null then
           (let s2 = (case startDate props of
                        Some d \<Rightarrow> s1\<lparr>month := getDateMonth d, year := getDateYear d\<rparr>
                      | None \<Rightarrow> s1)
            in if startTime props \<noteq> NoStartTime then assignStartTime props s2 else Inr s2)
         else Inr s1)"

subsection \<open>Hover, month and year, time\<close>

definition setHoverDate :: "Calendar \<Rightarrow> ICalendarDay \<Rightarrow> Calendar" where
  "setHoverDate s day = s\<lparr>hoveredDate := Some (day_value day)\<rparr>"

text \<open>
  \<open>updateMonthYear\<close>: in month-picker mode the value is rewritten through the cast
  \<open>modelValue.value as Date\<close>, which a stored array does not honour.
\<close>

definition updateMonthYear ::
  "CalendarProps \<Rightarrow> Calendar \<Rightarrow> Date \<Rightarrow> int \<Rightarrow> bool \<Rightarrow> fault + Calendar \<times> Emit list" where
  "updateMonthYear props s now v isMonth =
     (let s1 = (if isMonth then s\<lparr>month := v\<rparr> else s\<lparr>year := v\<rparr>)
      in if monthPicker props then
           (case internalModelValue props of
              Null \<Rightarrow>
                Inr (s1, [UpdateInternalModelValue
                            (DateV (setDateMonthOrYear now (month s1) (year s1)))])
            | DateV d \<Rightarrow>
                Inr (s1, [UpdateInternalModelValue
                            (DateV (setDateMonthOrYear d (month s1) (year s1)))])
            | DatesV _ \<Rightarrow> Inl WrongShape)
         else Inr (s1, []))"

text \<open>
  \<open>handleTimeUpdate\<close>: a range pair with array hours and minutes is rebuilt endpoint by
  endpoint; otherwise, outside range mode, a value that is no range pair is rebuilt
  through the casts \<open>dateValue as Date\<close>, \<open>hours.value as number\<close> and
  \<open>minutes.value as number\<close>; every other combination writes nothing.
\<close>

definition handleTimeUpdate ::
  "CalendarProps \<Rightarrow> Calendar \<Rightarrow> InternalModuleValue \<Rightarrow> fault + Calendar \<times> Emit list" where
  "handleTimeUpdate props s dateValue =
     (if isRange dateValue \<and> isNumberArray (hours s) \<and> isNumberArray (minutes s) then
        (case dateValue of
           DatesV [first, second] \<Rightarrow>
             Inr (s, [UpdateInternalModelValue
                        (DatesV [setDateTime first (timeAt (hours s) 0) (timeAt (minutes s) 0),
                                 setDateTime second (timeAt (hours s) 1) (timeAt (minutes s) 1)])])
         | _ \<Rightarrow> Inr (s, []))
      else if \<not> range_prop props \<and> \<not> isRange dateValue then
        (case (dateValue, hours s, minutes s) of
           (DateV d, Num h, Num m) \<Rightarrow>
             Inr (s, [UpdateInternalModelValue (DateV (setDateTime d (Some h) (Some m)))])
         | _ \<Rightarrow> Inl WrongShape)
      else Inr (s, []))"

definition updateTime ::
  "CalendarProps \<Rightarrow> Calendar \<Rightarrow> Date \<Rightarrow> TimeState \<Rightarrow> bool \<Rightarrow> fault + Calendar \<times> Emit list" where
  "updateTime props s now v isHours =
     (let s1 = (if isHours then s\<lparr>hours := v\<rparr> else s\<lparr>minutes := v\<rparr>)
      in if internalModelValue props \<noteq> Null then handleTimeUpdate props s1 (internalModelValue props)
         else if timePicker props then
           handleTimeUpdate props s1 (if range_prop props then DatesV [now, now] else DateV now)
         else Inr (s1, []))"

subsection \<open>The engine and its host\<close>

text \<open>
  Modelled from the spec: the host component is not part of the sources at hand. It owns
  the value: \<open>modelValue\<close> reads the prop \<open>internalModelValue\<close> and a write emits
  \<open>update:internalModelValue\<close>, which the host stores into that prop; the engine reads
  the value again whenever it changes (the watcher on \<open>modelValue\<close> runs
  \<open>mapInternalModuleValues\<close>). \<open>autoApply\<close> leaves the prop alone.
\<close>

fun deliver :: "CalendarProps \<Rightarrow> Calendar \<Rightarrow> Emit list \<Rightarrow> CalendarProps \<times> Calendar" where
  "deliver props s [] = (props, s)"
| "deliver props s (UpdateInternalModelValue v # es) =
     (let props' = props\<lparr>internalModelValue := v\<rparr>
      in deliver props' (mapInternalModuleValues props' s) es)"
| "deliver props s (AutoApply # es) = deliver props s es"

text \<open>The operations the engine exposes to the calendar and the time controls.\<close>

datatype Op =
    SelectDate ICalendarDay
  | SetHoverDate ICalendarDay
  | UpdateMonthYear int bool
  | UpdateTime TimeState bool

definition perform ::
  "CalendarProps \<Rightarrow> Calendar \<Rightarrow> Date \<Rightarrow> Op \<Rightarrow> fault + Calendar \<times> Emit list" where
  "perform props s now op =
     (case op of
        SelectDate day \<Rightarrow> selectDate props s day
      | SetHoverDate day \<Rightarrow> Inr (setHoverDate s day, [])
      | UpdateMonthYear v isMonth \<Rightarrow> updateMonthYear props s now v isMonth
      | UpdateTime v isHours \<Rightarrow> updateTime props s now v isHours)"

text \<open>One event handler run to completion, followed by the host's reaction to what it emitted.\<close>

definition step ::
  "CalendarProps \<times> Calendar \<Rightarrow> Date \<times> Op \<Rightarrow> fault + (CalendarProps \<times> Calendar) \<times> Emit list" where
  "step ps nop =
     (case perform (fst ps) (snd ps) (fst nop) (snd nop) of
        Inl e \<Rightarrow> Inl e
      | Inr (s', es) \<Rightarrow> Inr (deliver (fst ps) s' es, es))"

fun run :: "CalendarProps \<times> Calendar \<Rightarrow> (Date \<times> Op) list \<Rightarrow> fault + (CalendarProps \<times> Calendar)" where
  "run ps [] = Inr ps"
| "run ps (nop # rest) =
     (case step ps nop of Inl e \<Rightarrow> Inl e | Inr (ps', es) \<Rightarrow> run ps' rest)"

section \<open>Menu positioning engine (components/composables/position.ts)\<close>

subsection \<open>Geometry, configuration and state\<close>

text \<open>
  A CSS length as the engine writes it: the initial \<open>'0'\<close>, a template string
  \<open>`${x}px`\<close> or a percentage. Pixel values are JS numbers, taken as reals.
\<close>

datatype css = Raw string | Px real | Percent real

record MenuPosition =
  top_css :: css
  left_css :: css
  transform :: string
  position :: "string option"

text \<open>The enum \<open>OpenPosition\<close>.\<close>

datatype OpenPosition = OpenPosition_center | OpenPosition_left | OpenPosition_right

text \<open>
  What the geometry provider returns for an element: its bounding rectangle relative to
  the viewport, and the element's own offset and scroll values followed by those of its
  successive offset parents, as far as the loop of \<open>getOffsetAlt\<close> walks (to the end of
  the chain or to the first element without numeric offsets).
\<close>

record DOMRect =
  rect_left :: real
  rect_top :: real
  rect_width :: real
  rect_height :: real
  rect_right :: real

record OffsetBox =
  offsetLeft :: real
  offsetTop :: real
  scrollLeft :: real
  scrollTop :: real

record HTMLElement =
  boundingClientRect :: DOMRect
  offsetChain :: "OffsetBox list"

text \<open>
  Modelled from the spec: the geometry provider and \<open>unrefElement\<close> of the missing
  \<open>utils/util\<close>. The record holds the scroll offsets and the height of the window, the
  client width of the document, and the elements behind \<open>inputRef\<close> and \<open>menuRef\<close>
  (\<open>None\<close> while an element is not mounted).
\<close>

record DOM =
  scrollX :: real
  scrollY :: real
  innerHeight :: real
  clientWidth :: real
  inputEl :: "HTMLElement option"
  menuEl :: "HTMLElement option"

text \<open>\<open>altPosition\<close> is a boolean or a function from the anchor to a menu position.\<close>

datatype AltPosition = AltBool bool | AltFn "HTMLElement option \<Rightarrow> MenuPosition"

record PositionProps =
  position_prop :: OpenPosition
  altPosition :: AltPosition
  offset_prop :: real
  inline :: bool
  teleportCenter_prop :: bool
  autoPosition :: bool

text \<open>The refs of \<open>usePosition\<close>, and how often \<open>recalculate-position\<close> was emitted.\<close>

record Position =
  menuPosition :: MenuPosition
  openOnTop :: bool
  recalculate_emitted :: nat

definition maxHeight :: real where
  "maxHeight = 390"

definition usePosition :: Position where
  "usePosition =
     \<lparr>menuPosition = \<lparr>top_css = Raw ''0'', left_css = Raw ''0'', transform = ''none'', position = None\<rparr>,
      openOnTop = False,
      recalculate_emitted = 0\<rparr>"

subsection \<open>Offsets and horizontal alignment\<close>

text \<open>Both offset functions return the pair \<open>(top, left)\<close>.\<close>

definition getOffset :: "DOM \<Rightarrow> HTMLElement \<Rightarrow> real \<times> real" where
  "getOffset env el =
     (let rect = boundingClientRect el
      in (rect_top rect + scrollY env, rect_left rect + scrollX env))"

fun getOffsetAlt_loop :: "real \<Rightarrow> OffsetBox list \<Rightarrow> real \<Rightarrow> real \<Rightarrow> real \<times> real" where
  "getOffsetAlt_loop rtop [] x y = (y, x)"
| "getOffsetAlt_loop rtop (el # parents) x y =
     getOffsetAlt_loop rtop parents (x + (offsetLeft el - scrollLeft el)) (rtop + scrollTop el)"

definition getOffsetAlt :: "HTMLElement \<Rightarrow> real \<times> real" where
  "getOffsetAlt el = getOffsetAlt_loop (rect_top (boundingClientRect el)) (offsetChain el) 0 0"

text \<open>The truthiness of \<open>props.altPosition\<close>, and whether it is a function.\<close>

definition altPosition_truthy :: "PositionProps \<Rightarrow> bool" where
  "altPosition_truthy props = (case altPosition props of AltBool b \<Rightarrow> b | AltFn _ \<Rightarrow> True)"

definition offsetOf :: "PositionProps \<Rightarrow> DOM \<Rightarrow> HTMLElement \<Rightarrow> real \<times> real" where
  "offsetOf props env el = (if altPosition_truthy props then getOffsetAlt el else getOffset env el)"

definition setPositionRight :: "real \<Rightarrow> real \<Rightarrow> Position \<Rightarrow> Position" where
  "setPositionRight left width st =
     st\<lparr>menuPosition := (menuPosition st)\<lparr>left_css := Px (left + width), transform := ''translateX(-100%)''\<rparr>\<rparr>"

definition setPositionLeft :: "real \<Rightarrow> Position \<Rightarrow> Position" where
  "setPositionLeft left st =
     st\<lparr>menuPosition := (menuPosition st)\<lparr>left_css := Px left, transform := ''translateX(0)''\<rparr>\<rparr>"

definition setPositioning :: "PositionProps \<Rightarrow> real \<Rightarrow> real \<Rightarrow> Position \<Rightarrow> Position" where
  "setPositioning props left width st =
     (let st1 = (if position_prop props = OpenPosition_left then setPositionLeft left st else st);
          st2 = (if position_prop props = OpenPosition_right then setPositionRight left width st1 else st1)
      in if position_prop props = OpenPosition_center then
           st2\<lparr>menuPosition := (menuPosition st2)\<lparr>left_css := Px (left + width / 2),
                                                  transform := ''translateX(-50%)''\<rparr>\<rparr>
         else st2)"

subsection \<open>Placement\<close>

definition setInitialPosition :: "PositionProps \<Rightarrow> DOM \<Rightarrow> Position \<Rightarrow> Position" where
  "setInitialPosition props env st =
     (case inputEl env of
        None \<Rightarrow> st
      | Some el \<Rightarrow>
          (let fullHeight = innerHeight env;
               (offset, left) = offsetOf props env el;
               rect = boundingClientRect el;
               freeBottom = fullHeight - rect_top rect - rect_height rect;
               st1 = st\<lparr>menuPosition := (menuPosition st)
                         \<lparr>top_css := (if rect_top rect > freeBottom then Px (offset - maxHeight)
                                      else Px offset)\<rparr>\<rparr>
           in setPositioning props left (rect_width rect) st1))"

definition teleportCenter :: "Position \<Rightarrow> Position" where
  "teleportCenter st =
     st\<lparr>menuPosition := (menuPosition st)
          \<lparr>left_css := Percent 50, top_css := Percent 50,
           transform := ''translate(-50%, -50%)'', position := Some ''fixed''\<rparr>\<rparr>"

text \<open>
  \<open>setMenuPosition\<close> and \<open>recalculatePosition\<close> call each other, and the call back
  from \<open>positionTopBottom\<close> passes \<open>recalculate = false\<close>, which ends the recursion.
  The body of \<open>setMenuPosition\<close> takes the recalculation as the parameter \<open>recalc\<close>;
  with \<open>recalculate = false\<close> it is never called.
\<close>

definition setMenuPosition_body ::
  "(Position \<Rightarrow> Position) \<Rightarrow> PositionProps \<Rightarrow> DOM \<Rightarrow> bool \<Rightarrow> Position \<Rightarrow> Position" where
  "setMenuPosition_body recalc props env recalculate st =
     (if \<not> inline props then
        (if teleportCenter_prop props then teleportCenter st
         else
           (case altPosition props of
              AltFn f \<Rightarrow> st\<lparr>menuPosition := f (inputEl env)\<rparr>
            | AltBool _ \<Rightarrow>
                (case inputEl env of
                   None \<Rightarrow> st
                 | Some el \<Rightarrow>
                     (let rect = boundingClientRect el;
                          (offset, left) = offsetOf props env el;
                          st1 = st\<lparr>menuPosition := (menuPosition st)
                                    \<lparr>top_css := Px (rect_height rect + offset + offset_prop props)\<rparr>\<rparr>;
                          st2 = setPositioning props left (rect_width rect) st1
                      in if recalculate \<and> autoPosition props then recalc st2 else st2))))
      else st)"

definition positionTopBottom ::
  "PositionProps \<Rightarrow> DOM \<Rightarrow> Position \<Rightarrow> real \<Rightarrow> real \<Rightarrow> real \<Rightarrow> real \<Rightarrow> real \<Rightarrow> Position" where
  "positionTopBottom props env st height inputHeight freeSpaceBottom top_value offset =
     (let menuHeight = height + inputHeight;
          below = (setMenuPosition_body id props env False st)\<lparr>openOnTop := False\<rparr>;
          above = st\<lparr>menuPosition := (menuPosition st)
                       \<lparr>top_css := Px (offset - height - offset_prop props)\<rparr>,
                    openOnTop := True\<rparr>
      in if menuHeight > top_value \<and> menuHeight > freeSpaceBottom then
           (if top_value < freeSpaceBottom then below else above)
         else
           (if menuHeight > freeSpaceBottom then above else below))"

definition recalculatePosition :: "PositionProps \<Rightarrow> DOM \<Rightarrow> Position \<Rightarrow> Position" where
  "recalculatePosition props env st =
     (let st' =
        (case inputEl env of
           Some el \<Rightarrow>
             if autoPosition props \<and> \<not> inline props then
               (let rect = boundingClientRect el;
                    (offset, inputLeft) = offsetOf props env el;
                    fullHeight = innerHeight env;
                    freeSpaceBottom = fullHeight - rect_top rect - rect_height rect
                in (case menuEl env of
                      Some menu \<Rightarrow>
                        (let mrect = boundingClientRect menu;
                             st1 = positionTopBottom props env st (rect_height mrect)
                                     (rect_height rect) freeSpaceBottom (rect_top rect) offset
                         in if rect_left mrect < 0 then setPositionLeft inputLeft st1
                            else if rect_right mrect > clientWidth env then
                              setPositionRight inputLeft (rect_width rect) st1
                            else st1)
                    | None \<Rightarrow> st))
             else st
         | None \<Rightarrow> st)
      in st'\<lparr>recalculate_emitted := Suc (recalculate_emitted st')\<rparr>)"

definition setMenuPosition :: "PositionProps \<Rightarrow> DOM \<Rightarrow> bool \<Rightarrow> Position \<Rightarrow> Position" where
  "setMenuPosition props env recalculate st =
     setMenuPosition_body (recalculatePosition props env) props env recalculate st"

section \<open>Shapes of time state and stored value\<close>

text \<open>The state after the assignment that opens \<open>updateTime\<close>.\<close>

definition afterTimeWrite :: "Calendar \<Rightarrow> TimeState \<Rightarrow> bool \<Rightarrow> Calendar" where
  "afterTimeWrite s v isHours = (if isHours then s\<lparr>hours := v\<rparr> else s\<lparr>minutes := v\<rparr>)"

text \<open>Hours and minutes are arrays exactly when the range flag is set.\<close>

definition shapeMatches :: "CalendarProps \<Rightarrow> Calendar \<Rightarrow> bool" where
  "shapeMatches props s \<longleftrightarrow>
     isNumberArray (hours s) = range_prop props \<and> isNumberArray (minutes s) = range_prop props"

text \<open>
  What the engine is handed fits the range flag: a stored value is an array in range
  mode and a single date outside it, a start time is an array of at least two times in
  range mode and a single time outside it, and \<open>updateTime\<close> is passed an array in
  range mode and a number outside it.
\<close>

definition valueFits :: "bool \<Rightarrow> InternalModuleValue \<Rightarrow> bool" where
  "valueFits flag v = (case v of Null \<Rightarrow> True | DateV _ \<Rightarrow> \<not> flag | DatesV _ \<Rightarrow> flag)"

definition startTimeFits :: "bool \<Rightarrow> StartTime \<Rightarrow> bool" where
  "startTimeFits flag t =
     (case t of
        NoStartTime \<Rightarrow> True
      | StartTimeV _ \<Rightarrow> \<not> flag
      | StartTimesV ts \<Rightarrow> flag \<and> 2 \<le> length ts)"

definition opFits :: "bool \<Rightarrow> Op \<Rightarrow> bool" where
  "opFits flag op = (case op of UpdateTime v _ \<Rightarrow> isNumberArray v = flag | _ \<Rightarrow> True)"

definition emitFits :: "bool \<Rightarrow> Emit \<Rightarrow> bool" where
  "emitFits flag e = (case e of UpdateInternalModelValue v \<Rightarrow> valueFits flag v | AutoApply \<Rightarrow> True)"

definition wellShaped :: "CalendarProps \<times> Calendar \<Rightarrow> bool" where
  "wellShaped ps \<longleftrightarrow>
     shapeMatches (fst ps) (snd ps)
     \<and> valueFits (range_prop (fst ps)) (internalModelValue (fst ps))
     \<and> \<not> (range_prop (fst ps) \<and> monthPicker (fst ps))"

section \<open>Concrete inputs\<close>

definition mkDate :: "int \<Rightarrow> int \<Rightarrow> int \<Rightarrow> int \<Rightarrow> int \<Rightarrow> Date" where
  "mkDate y m d h mi = \<lparr>d_year = y, d_month = m, d_day = d, d_hours = h, d_minutes = mi\<rparr>"

definition mkDay :: "Date \<Rightarrow> ICalendarDay" where
  "mkDay d = \<lparr>day_text = d_day d, day_value = d, day_current = True\<rparr>"

text \<open>
  A range picker with auto-apply for the year 2024: February 14 is disabled and August
  is filtered out.
\<close>

definition ex_props :: CalendarProps where
  "ex_props =
     \<lparr>range_prop = True, startDate = None, startTime = NoStartTime, internalModelValue = Null,
      maxDate = Some (mkDate 2024 11 31 0 0), minDate = Some (mkDate 2024 0 1 0 0),
      filters_months = [7], yearRange = [1900, 2100],
      disabledDates = [mkDate 2024 1 14 0 0],
      autoApply = True, monthPicker = False, timePicker = False\<rparr>"

text \<open>The clock reads March 5, 2024, 10:30; the cells of January 5 and January 10.\<close>

definition ex_now :: Date where
  "ex_now = mkDate 2024 2 5 10 30"

definition jan5 :: ICalendarDay where
  "jan5 = mkDay (mkDate 2024 0 5 0 0)"

definition jan10 :: ICalendarDay where
  "jan10 = mkDay (mkDate 2024 0 10 0 0)"

text \<open>The same picker with one endpoint stored, and a sequence of operations on it.\<close>

definition oneEndpoint :: CalendarProps where
  "oneEndpoint = ex_props\<lparr>internalModelValue := DatesV [mkDate 2024 0 10 10 30]\<rparr>"

definition ex_ops :: "(Date \<times> Op) list" where
  "ex_ops =
     [(ex_now, SelectDate jan10), (ex_now, UpdateTime (Nums [15, 16]) True),
      (ex_now, SelectDate jan5), (ex_now, UpdateMonthYear 3 True), (ex_now, SetHoverDate jan5),
      (ex_now, UpdateTime (Nums [45, 50]) False)]"

text \<open>
  An anchor 200 wide and 40 high at (20, 100) in a viewport 800 high that is not
  scrolled; the menu opens left-aligned, 10 pixels off the anchor.
\<close>

definition ex_input :: HTMLElement where
  "ex_input =
     \<lparr>boundingClientRect =
        \<lparr>rect_left = 20, rect_top = 100, rect_width = 200, rect_height = 40, rect_right = 220\<rparr>,
      offsetChain = [\<lparr>offsetLeft = 20, offsetTop = 100, scrollLeft = 0, scrollTop = 0\<rparr>]\<rparr>"

definition ex_env :: DOM where
  "ex_env = \<lparr>scrollX = 0, scrollY = 0, innerHeight = 800, clientWidth = 1200,
              inputEl = Some ex_input, menuEl = None\<rparr>"

definition ex_pprops :: PositionProps where
  "ex_pprops = \<lparr>position_prop = OpenPosition_left, altPosition = AltBool False, offset_prop = 10,
                 inline = False, teleportCenter_prop = False, autoPosition = True\<rparr>"

section \<open>Properties of the selection engine\<close>

subsection \<open>Auxiliary facts\<close>

lemma isDisabled_internalModelValue [simp]:
  "isDisabled (props\<lparr>internalModelValue := v\<rparr>) d = isDisabled props d"
  by (simp add: isDisabled_def outOfYearRange_def)

lemma isDisabled_range_prop [simp]:
  "isDisabled (props\<lparr>range_prop := flag\<rparr>) d = isDisabled props d"
  by (simp add: isDisabled_def outOfYearRange_def)

lemma isDateBefore_setDateTime [simp]:
  "isDateBefore (setDateTime a h m) b = isDateBefore a b"
  "isDateBefore a (setDateTime b h m) = isDateBefore a b"
  by (auto simp: isDateBefore_def setDateTime_def split: option.splits)

lemma isDateEqual_setDateTime [simp]:
  "isDateEqual (setDateTime a h m) b = isDateEqual a b"
  by (auto simp: isDateEqual_def setDateTime_def split: option.splits)

lemma isDateBefore_asym: "isDateBefore a b \<Longrightarrow> \<not> isDateBefore b a"
  by (auto simp: isDateBefore_def)

lemma isDateEqual_refl [simp]: "isDateEqual a a"
  by (simp add: isDateEqual_def)

lemma outOfYearRange_iff:
  "outOfYearRange props y \<longleftrightarrow>
     (\<exists>lo. js_index (yearRange props) 0 = Some lo \<and> y < lo) \<or>
     (\<exists>hi. js_index (yearRange props) 1 = Some hi \<and> hi < y)"
  unfolding outOfYearRange_def
  by (cases "js_index (yearRange props) 0"; cases "js_index (yearRange props) 1"; simp)

lemma selectDate_range_branch:
  assumes "\<not> isDisabled props (day_value day)"
    and "isNumberArray (hours s)" and "isNumberArray (minutes s)"
    and "sliceModelValue (internalModelValue props) = Inr snapshot"
  shows "selectDate props s day =
           Inr (s, UpdateInternalModelValue
                     (DatesV (applyRangeTime (hours s) (minutes s)
                                (insertRangeDate snapshot (day_value day))))
                   # (if 2 \<le> length (applyRangeTime (hours s) (minutes s)
                                        (insertRangeDate snapshot (day_value day)))
                         \<and> autoApply props
                      then [AutoApply] else []))"
  using assms by (simp add: selectDate_def Let_def)

lemma length_applyRangeTime [simp]: "length (applyRangeTime hs ms ds) = length ds"
  by (simp add: applyRangeTime_def split: list.splits)

lemma insertRangeDate_restart:
  "length snapshot = 0 \<or> length snapshot = 2 \<Longrightarrow> insertRangeDate snapshot d = [d]"
  by (auto simp: insertRangeDate_def)

lemma insertRangeDate_second:
  "insertRangeDate [a] d = (if isDateBefore d a then [d, a] else [a, d])"
  by (simp add: insertRangeDate_def)

lemma length_insertRangeDate_ge2:
  "length snapshot \<noteq> 0 \<Longrightarrow> length snapshot \<noteq> 2 \<Longrightarrow> 2 \<le> length (insertRangeDate snapshot d)"
  by (cases snapshot) (auto simp: insertRangeDate_def)

lemmas ex_defs =
  ex_props_def ex_now_def jan5_def jan10_def mkDate_def mkDay_def useCalendar_def
  getDateYear_def getDateMonth_def getDateHours_def getDateMinutes_def

lemmas date_defs =
  isDateBefore_def isDateAfter_def isDateEqual_def setDateTime_def js_index_def
  isNumberArray_def timeAt_def asNumber_def

lemma jan5_enabled: "\<not> isDisabled ex_props (day_value jan5)"
  by (simp add: isDisabled_def outOfYearRange_def ex_defs date_defs)

lemma jan10_enabled: "\<not> isDisabled ex_props (day_value jan10)"
  by (simp add: isDisabled_def outOfYearRange_def ex_defs date_defs)

subsection \<open>Disabled days\<close>

text \<open>
  C2. A date is disabled exactly when one of five conditions holds: it is after the
  configured maximum, before the configured minimum, equal to an entry of the
  disabled-dates list, its month index is in the excluded months, or its year is below
  the first or above the second entry of the year range. An absent maximum, minimum or
  month filter contributes nothing.
\<close>

theorem isDisabled_iff:
  "isDisabled props date \<longleftrightarrow>
     (\<exists>mx. maxDate props = Some mx \<and> isDateAfter date mx) \<or>
     (\<exists>mn. minDate props = Some mn \<and> isDateBefore date mn) \<or>
     (\<exists>d \<in> set (disabledDates props). isDateEqual d date) \<or>
     getDateMonth date \<in> set (filters_months props) \<or>
     (\<exists>lo. js_index (yearRange props) 0 = Some lo \<and> getDateYear date < lo) \<or>
     (\<exists>hi. js_index (yearRange props) 1 = Some hi \<and> hi < getDateYear date)"
proof -
  have mx: "(case maxDate props of Some mx \<Rightarrow> isDateAfter date mx | None \<Rightarrow> False)
              \<longleftrightarrow> (\<exists>mx. maxDate props = Some mx \<and> isDateAfter date mx)"
    by (cases "maxDate props") simp_all
  have mn: "(case minDate props of Some mn \<Rightarrow> isDateBefore date mn | None \<Rightarrow> False)
              \<longleftrightarrow> (\<exists>mn. minDate props = Some mn \<and> isDateBefore date mn)"
    by (cases "minDate props") simp_all
  have months: "getDateMonth date \<in> set (if length (filters_months props) \<noteq> 0
                   then filters_months props else [])
              \<longleftrightarrow> getDateMonth date \<in> set (filters_months props)"
    by (cases "filters_months props") simp_all
  show ?thesis
    unfolding isDisabled_def Let_def mx mn months list_ex_iff outOfYearRange_iff
    by simp
qed

text \<open>
  Each condition disables on its own: a day after the maximum, a day before the minimum,
  the disabled day (at any time of day), a day of the filtered month, a year past the
  range once the maximum is taken away; and a day that meets none is enabled.
\<close>

theorem isDisabled_iff_witness:
  "isDisabled ex_props (mkDate 2025 0 3 0 0) \<and>
   isDisabled ex_props (mkDate 2023 11 30 0 0) \<and>
   isDisabled ex_props (mkDate 2024 1 14 9 15) \<and>
   isDisabled ex_props (mkDate 2024 7 20 0 0) \<and>
   isDisabled (ex_props\<lparr>maxDate := None\<rparr>) (mkDate 2101 0 1 0 0) \<and>
   \<not> isDisabled ex_props (mkDate 2024 1 15 0 0) \<and>
   \<not> isDisabled (ex_props\<lparr>maxDate := None, minDate := None, filters_months := []\<rparr>)
        (mkDate 2030 7 20 0 0)"
  unfolding isDisabled_iff
  by (simp add: ex_defs date_defs)

text \<open>
  C5. Selecting a disabled day does nothing: selectDate returns the state as it was and
  emits nothing, so the host is not told of any value and the whole step leaves the
  configuration, the stored value and the state (month, year, hours, minutes, hovered
  date) as they were.
\<close>

theorem selectDate_disabled_noop:
  "isDisabled props (day_value day) \<Longrightarrow>
     selectDate props s day = Inr (s, []) \<and>
     step (props, s) (now, SelectDate day) = Inr ((props, s), [])"
  by (simp add: selectDate_def step_def perform_def)

theorem selectDate_disabled_noop_witness:
  "isDisabled ex_props (day_value (mkDay (mkDate 2025 0 3 0 0))) \<and>
   selectDate ex_props (useCalendar ex_props ex_now) (mkDay (mkDate 2025 0 3 0 0))
     = Inr (useCalendar ex_props ex_now, []) \<and>
   step (ex_props, useCalendar ex_props ex_now) (ex_now, SelectDate (mkDay (mkDate 2025 0 3 0 0)))
     = Inr ((ex_props, useCalendar ex_props ex_now), [])"
proof -
  have dis: "isDisabled ex_props (day_value (mkDay (mkDate 2025 0 3 0 0)))"
    by (simp add: isDisabled_def ex_defs date_defs)
  show ?thesis
    using dis selectDate_disabled_noop [OF dis, of "useCalendar ex_props ex_now" ex_now]
    by simp
qed

subsection \<open>The branch of selectDate\<close>

text \<open>
  C10. On a day that is not disabled the shape of the hour and minute state picks the
  branch of selectDate, not the range flag. With the range flag set and hours or minutes
  a scalar, nothing is written and nothing emitted. With hours and minutes both arrays
  the result does not depend on the range flag: the insertion into the range runs and
  writes an array (on a stored single date the snapshot raises).
\<close>

theorem selectDate_branch_by_shape:
  assumes "\<not> isDisabled props (day_value day)"
  shows "(range_prop props \<and> (\<not> isNumberArray (hours s) \<or> \<not> isNumberArray (minutes s))
            \<longrightarrow> selectDate props s day = Inr (s, []))
       \<and> (isNumberArray (hours s) \<and> isNumberArray (minutes s)
            \<longrightarrow> selectDate props s day = selectDate (props\<lparr>range_prop := flag\<rparr>) s day
              \<and> (case sliceModelValue (internalModelValue props) of
                    Inl e \<Rightarrow> selectDate props s day = Inl e
                  | Inr snapshot \<Rightarrow>
                      \<exists>rest. selectDate props s day =
                        Inr (s, UpdateInternalModelValue
                                  (DatesV (applyRangeTime (hours s) (minutes s)
                                             (insertRangeDate snapshot (day_value day)))) # rest)))"
  using assms by (simp add: selectDate_def Let_def split: sum.splits)

theorem selectDate_branch_by_shape_witness:
  "\<not> isDisabled ex_props (day_value jan10) \<and>
   selectDate ex_props ((useCalendar ex_props ex_now)\<lparr>hours := Num 15\<rparr>) jan10
     = Inr ((useCalendar ex_props ex_now)\<lparr>hours := Num 15\<rparr>, []) \<and>
   \<not> isDisabled (ex_props\<lparr>range_prop := False\<rparr>) (day_value jan10) \<and>
   selectDate (ex_props\<lparr>range_prop := False\<rparr>) (useCalendar ex_props ex_now) jan10
     = Inr (useCalendar ex_props ex_now,
            [UpdateInternalModelValue (DatesV [mkDate 2024 0 10 10 30])])"
proof -
  have a: "selectDate ex_props ((useCalendar ex_props ex_now)\<lparr>hours := Num 15\<rparr>) jan10
             = Inr ((useCalendar ex_props ex_now)\<lparr>hours := Num 15\<rparr>, [])"
    using selectDate_branch_by_shape
            [OF jan10_enabled, of "(useCalendar ex_props ex_now)\<lparr>hours := Num 15\<rparr>" True]
    by (simp add: ex_defs date_defs)
  have en: "\<not> isDisabled (ex_props\<lparr>range_prop := False\<rparr>) (day_value jan10)"
    using jan10_enabled by simp
  have "selectDate (ex_props\<lparr>range_prop := False\<rparr>) (useCalendar ex_props ex_now) jan10
          = selectDate (ex_props\<lparr>range_prop := False, range_prop := True\<rparr>)
              (useCalendar ex_props ex_now) jan10"
    using selectDate_branch_by_shape [OF en, of "useCalendar ex_props ex_now" True]
    by (simp add: ex_defs date_defs)
  also have "\<dots> = Inr (useCalendar ex_props ex_now,
                        [UpdateInternalModelValue (DatesV [mkDate 2024 0 10 10 30])])"
    by (simp add: selectDate_def isDisabled_def outOfYearRange_def sliceModelValue_def
          insertRangeDate_def applyRangeTime_def ex_defs date_defs)
  finally show ?thesis
    using a en jan10_enabled by simp
qed

subsection \<open>Range selection\<close>

lemma mapInternalModuleValues_single [simp]:
  "mapInternalModuleValues (props\<lparr>internalModelValue := DatesV [d]\<rparr>) s = s"
  by (simp add: mapInternalModuleValues_def isModelValueRange_def)

lemma applyRangeTime_one:
  "applyRangeTime hs ms [d] = [setDateTime d (timeAt hs 0) (timeAt ms 0)]"
  by (simp add: applyRangeTime_def)

lemma applyRangeTime_two:
  "applyRangeTime hs ms [a, b] =
     [setDateTime a (timeAt hs 0) (timeAt ms 0), setDateTime b (timeAt hs 1) (timeAt ms 1)]"
  by (simp add: applyRangeTime_def)

lemmas engine_defs =
  selectDate_def isDisabled_def outOfYearRange_def sliceModelValue_def insertRangeDate_def
  applyRangeTime_def step_def perform_def mapInternalModuleValues_def isModelValueRange_def
  assignMonthAndYear_def

lemma ex_arrays:
  "isNumberArray (hours (useCalendar ex_props ex_now))"
  "isNumberArray (minutes (useCalendar ex_props ex_now))"
  by (simp_all add: ex_defs date_defs)

text \<open>
  C1. In range mode (range flag set, hours and minutes arrays), starting with no
  endpoint pending (no stored value, an empty array or a complete pair), two clicks on
  days that are not disabled leave a stored range of exactly two dates, ordered
  earliest day first whatever the order of the clicks: a second day before the first
  one is put in front and the first click's date moves to second position. The order
  is that of \<open>isDateBefore\<close>, by calendar day; each stored date is the clicked day
  with a time of day applied.
\<close>

theorem range_two_clicks_ordered:
  assumes range: "range_prop props"
    and hs: "isNumberArray (hours s)" and ms: "isNumberArray (minutes s)"
    and start: "internalModelValue props = Null \<or> internalModelValue props = DatesV []
                \<or> (\<exists>a b. internalModelValue props = DatesV [a, b])"
    and en1: "\<not> isDisabled props (day_value day1)"
    and en2: "\<not> isDisabled props (day_value day2)"
  shows "\<exists>ps' first second.
           run (props, s) [(now1, SelectDate day1), (now2, SelectDate day2)] = Inr ps'
         \<and> internalModelValue (fst ps') = DatesV [first, second]
         \<and> \<not> isDateBefore second first
         \<and> (if isDateBefore (day_value day2) (day_value day1)
             then isDateEqual first (day_value day2) \<and> isDateEqual second (day_value day1)
             else isDateEqual first (day_value day1) \<and> isDateEqual second (day_value day2))"
proof -
  define h0 m0 h1 m1 where "h0 = timeAt (hours s) 0" and "m0 = timeAt (minutes s) 0"
    and "h1 = timeAt (hours s) 1" and "m1 = timeAt (minutes s) 1"
  define d1 where "d1 = setDateTime (day_value day1) h0 m0"
  define props1 where "props1 = props\<lparr>internalModelValue := DatesV [d1]\<rparr>"
  obtain snapshot where slice: "sliceModelValue (internalModelValue props) = Inr snapshot"
    and len: "length snapshot = 0 \<or> length snapshot = 2"
    using start by (auto simp: sliceModelValue_def)
  have sel1: "selectDate props s day1 = Inr (s, [UpdateInternalModelValue (DatesV [d1])])"
    using selectDate_range_branch [OF en1 hs ms slice] len
    by (simp add: insertRangeDate_restart applyRangeTime_one d1_def h0_def m0_def)
  have step1: "step (props, s) (now1, SelectDate day1) =
                 Inr ((props1, s), [UpdateInternalModelValue (DatesV [d1])])"
    by (simp add: step_def perform_def sel1 props1_def)
  define r where "r = applyRangeTime (hours s) (minutes s) (insertRangeDate [d1] (day_value day2))"
  have r_eq: "r = (if isDateBefore (day_value day2) (day_value day1)
                   then [setDateTime (day_value day2) h0 m0, setDateTime d1 h1 m1]
                   else [setDateTime d1 h0 m0, setDateTime (day_value day2) h1 m1])"
    by (simp add: r_def insertRangeDate_second applyRangeTime_two d1_def h0_def m0_def h1_def m1_def)
  have slice1: "sliceModelValue (internalModelValue props1) = Inr [d1]"
    by (simp add: props1_def sliceModelValue_def)
  have en2': "\<not> isDisabled props1 (day_value day2)"
    using en2 by (simp add: props1_def)
  have sel2: "\<exists>rest. selectDate props1 s day2 = Inr (s, UpdateInternalModelValue (DatesV r) # rest)
                \<and> (rest = [] \<or> rest = [AutoApply])"
    using selectDate_range_branch [OF en2' hs ms slice1] by (simp add: r_def)
  then obtain rest where sel2': "selectDate props1 s day2 = Inr (s, UpdateInternalModelValue (DatesV r) # rest)"
    and rest: "rest = [] \<or> rest = [AutoApply]"
    by blast
  define props2 where "props2 = props1\<lparr>internalModelValue := DatesV r\<rparr>"
  have del: "deliver props1 s (UpdateInternalModelValue (DatesV r) # rest) =
               (props2, mapInternalModuleValues props2 s)"
    using rest by (auto simp: props2_def Let_def)
  have step2: "step (props1, s) (now2, SelectDate day2) =
                 Inr ((props2, mapInternalModuleValues props2 s), UpdateInternalModelValue (DatesV r) # rest)"
    by (simp add: step_def perform_def sel2' del del: deliver.simps)
  have run: "run (props, s) [(now1, SelectDate day1), (now2, SelectDate day2)] =
               Inr (props2, mapInternalModuleValues props2 s)"
    by (simp add: step1 step2)
  have stored: "internalModelValue (fst (props2, mapInternalModuleValues props2 s)) = DatesV r"
    by (simp add: props2_def)
  show ?thesis
  proof (cases "isDateBefore (day_value day2) (day_value day1)")
    case True
    then have "\<not> isDateBefore (day_value day1) (day_value day2)"
      by (rule isDateBefore_asym)
    with True run stored show ?thesis
      by (simp add: r_eq d1_def)
  next
    case False
    with run stored show ?thesis
      by (simp add: r_eq d1_def)
  qed
qed

theorem range_two_clicks_ordered_witness:
  "run (ex_props, useCalendar ex_props ex_now)
      [(ex_now, SelectDate jan10), (ex_now, SelectDate jan5)]
     = Inr (ex_props\<lparr>internalModelValue := DatesV [mkDate 2024 0 5 10 30, mkDate 2024 0 10 10 30]\<rparr>,
            (useCalendar ex_props ex_now)\<lparr>month := 0\<rparr>)
   \<and> \<not> isDateBefore (mkDate 2024 0 10 10 30) (mkDate 2024 0 5 10 30)"
proof -
  have r: "range_prop ex_props" and start: "internalModelValue ex_props = Null \<or>
      internalModelValue ex_props = DatesV [] \<or> (\<exists>a b. internalModelValue ex_props = DatesV [a, b])"
    by (simp_all add: ex_props_def)
  obtain ps' first second where
    run: "run (ex_props, useCalendar ex_props ex_now)
            [(ex_now, SelectDate jan10), (ex_now, SelectDate jan5)] = Inr ps'"
    and mv: "internalModelValue (fst ps') = DatesV [first, second]"
    and ord: "\<not> isDateBefore second first"
    using range_two_clicks_ordered [OF r ex_arrays start jan10_enabled jan5_enabled, of ex_now ex_now]
    by blast
  have ev: "run (ex_props, useCalendar ex_props ex_now)
      [(ex_now, SelectDate jan10), (ex_now, SelectDate jan5)]
     = Inr (ex_props\<lparr>internalModelValue := DatesV [mkDate 2024 0 5 10 30, mkDate 2024 0 10 10 30]\<rparr>,
            (useCalendar ex_props ex_now)\<lparr>month := 0\<rparr>)"
    by (simp add: engine_defs ex_defs date_defs Let_def)
  with run mv ord show ?thesis
    by auto
qed

text \<open>
  C3. In range mode, with a complete pair stored, a click on a day that is not disabled
  writes a range of one date: the clicked day with the time at index 0. Neither old
  endpoint is in the value written, no auto-apply is emitted, and the host stores that
  one-element range.
\<close>

theorem selectDate_restarts_complete_range:
  assumes "range_prop props"
    and "isNumberArray (hours s)" and "isNumberArray (minutes s)"
    and "internalModelValue props = DatesV [a, b]"
    and "\<not> isDisabled props (day_value day)"
  shows "selectDate props s day =
           Inr (s, [UpdateInternalModelValue
                      (DatesV [setDateTime (day_value day) (timeAt (hours s) 0) (timeAt (minutes s) 0)])])
       \<and> (\<exists>ps'. step (props, s) (now, SelectDate day) =
                  Inr (ps', [UpdateInternalModelValue
                      (DatesV [setDateTime (day_value day) (timeAt (hours s) 0) (timeAt (minutes s) 0)])])
              \<and> internalModelValue (fst ps') =
                  DatesV [setDateTime (day_value day) (timeAt (hours s) 0) (timeAt (minutes s) 0)])
       \<and> isDateEqual (setDateTime (day_value day) (timeAt (hours s) 0) (timeAt (minutes s) 0))
            (day_value day)"
proof -
  have slice: "sliceModelValue (internalModelValue props) = Inr [a, b]"
    using assms(4) by (simp add: sliceModelValue_def)
  have sel: "selectDate props s day =
           Inr (s, [UpdateInternalModelValue
                      (DatesV [setDateTime (day_value day) (timeAt (hours s) 0) (timeAt (minutes s) 0)])])"
    using selectDate_range_branch [OF assms(5) assms(2) assms(3) slice]
    by (simp add: insertRangeDate_restart applyRangeTime_one)
  show ?thesis
    by (simp add: sel step_def perform_def)
qed

theorem selectDate_restarts_complete_range_witness:
  "selectDate (ex_props\<lparr>internalModelValue := DatesV [mkDate 2024 0 5 10 30, mkDate 2024 0 10 10 30]\<rparr>)
      (useCalendar ex_props ex_now) (mkDay (mkDate 2024 2 20 0 0))
     = Inr (useCalendar ex_props ex_now, [UpdateInternalModelValue (DatesV [mkDate 2024 2 20 10 30])])"
proof -
  let ?p = "ex_props\<lparr>internalModelValue := DatesV [mkDate 2024 0 5 10 30, mkDate 2024 0 10 10 30]\<rparr>"
  have r: "range_prop ?p" and mv: "internalModelValue ?p = DatesV [mkDate 2024 0 5 10 30, mkDate 2024 0 10 10 30]"
    by (simp_all add: ex_props_def)
  have en: "\<not> isDisabled ?p (day_value (mkDay (mkDate 2024 2 20 0 0)))"
    by (simp add: isDisabled_def outOfYearRange_def ex_defs date_defs)
  show ?thesis
    using selectDate_restarts_complete_range [OF r ex_arrays mv en, of ex_now]
    by (simp add: ex_defs date_defs)
qed

text \<open>
  C4. In range mode with auto-apply configured, a click on a day that is not disabled
  writes a non-empty range and emits \<open>autoApply\<close> once, after the write, exactly when
  the range written has its second endpoint; a click that writes a single endpoint (the
  snapshot was empty or a complete pair) emits only the write.
\<close>

theorem selectDate_autoApply:
  assumes "range_prop props" and "autoApply props"
    and "isNumberArray (hours s)" and "isNumberArray (minutes s)"
    and "sliceModelValue (internalModelValue props) = Inr snapshot"
    and "\<not> isDisabled props (day_value day)"
  shows "\<exists>rangeDate. rangeDate \<noteq> [] \<and>
           selectDate props s day =
             Inr (s, UpdateInternalModelValue (DatesV rangeDate)
                     # (if 2 \<le> length rangeDate then [AutoApply] else []))
         \<and> (length rangeDate = 1 \<longleftrightarrow> length snapshot = 0 \<or> length snapshot = 2)"
proof -
  let ?r = "applyRangeTime (hours s) (minutes s) (insertRangeDate snapshot (day_value day))"
  have sel: "selectDate props s day =
               Inr (s, UpdateInternalModelValue (DatesV ?r)
                       # (if 2 \<le> length ?r then [AutoApply] else []))"
    using selectDate_range_branch [OF assms(6) assms(3) assms(4) assms(5)] assms(2) by simp
  have len: "length ?r = 1 \<longleftrightarrow> length snapshot = 0 \<or> length snapshot = 2"
  proof (cases "length snapshot = 0 \<or> length snapshot = 2")
    case True
    then show ?thesis by (simp add: insertRangeDate_restart)
  next
    case False
    then have "2 \<le> length (insertRangeDate snapshot (day_value day))"
      by (simp add: length_insertRangeDate_ge2)
    with False show ?thesis by simp
  qed
  have ne: "?r \<noteq> []"
    by (cases snapshot) (auto simp: insertRangeDate_def applyRangeTime_def split: list.splits)
  show ?thesis
    using sel len ne by blast
qed

theorem selectDate_autoApply_witness:
  "selectDate ex_props (useCalendar ex_props ex_now) jan10
     = Inr (useCalendar ex_props ex_now, [UpdateInternalModelValue (DatesV [mkDate 2024 0 10 10 30])])
   \<and> selectDate (ex_props\<lparr>internalModelValue := DatesV [mkDate 2024 0 10 10 30]\<rparr>)
        (useCalendar ex_props ex_now) jan5
     = Inr (useCalendar ex_props ex_now,
            [UpdateInternalModelValue (DatesV [mkDate 2024 0 5 10 30, mkDate 2024 0 10 10 30]),
             AutoApply])"
proof -
  let ?p = "ex_props\<lparr>internalModelValue := DatesV [mkDate 2024 0 10 10 30]\<rparr>"
  have r: "range_prop ex_props" and a: "autoApply ex_props"
    and sl: "sliceModelValue (internalModelValue ex_props) = Inr []"
    by (simp_all add: ex_props_def sliceModelValue_def)
  obtain r1 where 1: "selectDate ex_props (useCalendar ex_props ex_now) jan10 =
      Inr (useCalendar ex_props ex_now,
           UpdateInternalModelValue (DatesV r1) # (if 2 \<le> length r1 then [AutoApply] else []))"
    using selectDate_autoApply [OF r a ex_arrays sl jan10_enabled] by blast
  have r': "range_prop ?p" and a': "autoApply ?p"
    and sl': "sliceModelValue (internalModelValue ?p) = Inr [mkDate 2024 0 10 10 30]"
    by (simp_all add: ex_props_def sliceModelValue_def)
  have en': "\<not> isDisabled ?p (day_value jan5)"
    using jan5_enabled by simp
  obtain r2 where 2: "selectDate ?p (useCalendar ex_props ex_now) jan5 =
      Inr (useCalendar ex_props ex_now,
           UpdateInternalModelValue (DatesV r2) # (if 2 \<le> length r2 then [AutoApply] else []))"
    using selectDate_autoApply [OF r' a' ex_arrays sl' en'] by blast
  have "r1 = [mkDate 2024 0 10 10 30]"
    using 1 by (simp add: engine_defs ex_defs date_defs)
  moreover have "r2 = [mkDate 2024 0 5 10 30, mkDate 2024 0 10 10 30]"
    using 2 by (simp add: engine_defs ex_defs date_defs)
  ultimately show ?thesis
    using 1 2 by simp
qed

subsection \<open>Time updates\<close>

text \<open>
  C6 as stated fails. In range mode with one endpoint stored (the state after a first
  click) \<open>updateTime\<close> stores the new hours and writes nothing: the stored date keeps
  its hour 10 while the hour state is 15 and 16. Likewise a stored pair is left alone
  when \<open>updateTime\<close> is passed a number in range mode.
\<close>

theorem updateTime_not_merged:
  "updateTime oneEndpoint (useCalendar ex_props ex_now) ex_now (Nums [15, 16]) True
     = Inr ((useCalendar ex_props ex_now)\<lparr>hours := Nums [15, 16]\<rparr>, [])
   \<and> step (oneEndpoint, useCalendar ex_props ex_now) (ex_now, UpdateTime (Nums [15, 16]) True)
     = Inr ((oneEndpoint, (useCalendar ex_props ex_now)\<lparr>hours := Nums [15, 16]\<rparr>), [])
   \<and> internalModelValue oneEndpoint = DatesV [mkDate 2024 0 10 10 30]
   \<and> getDateHours (mkDate 2024 0 10 10 30) = 10
   \<and> updateTime
        (ex_props\<lparr>internalModelValue := DatesV [mkDate 2024 0 5 10 30, mkDate 2024 0 10 10 30]\<rparr>)
        (useCalendar ex_props ex_now) ex_now (Num 15) True
     = Inr ((useCalendar ex_props ex_now)\<lparr>hours := Num 15\<rparr>, [])"
  by (simp add: updateTime_def handleTimeUpdate_def isRange_def step_def perform_def
        oneEndpoint_def ex_defs date_defs)

text \<open>
  C6, amended. \<open>updateTime\<close> first stores the value it is given as hours or minutes.
  With a pair of dates stored and hours and minutes then arrays of at least two numbers,
  it writes the pair with the hours and minutes of each endpoint replaced by the entries
  at the endpoint's index, year, month and day as they were. With a single date stored
  outside range mode and hours and minutes then numbers, it writes that date with hours
  and minutes replaced, year, month and day as they were. In range mode a stored value
  that is no pair of dates (one endpoint, say) is not written, and neither is a stored
  pair when hours or minutes is a number.
\<close>

theorem updateTime_merges_time:
  "(\<forall>a b h0 h1 hrest m0 m1 mrest.
       internalModelValue props = DatesV [a, b]
       \<and> hours (afterTimeWrite s v isHours) = Nums (h0 # h1 # hrest)
       \<and> minutes (afterTimeWrite s v isHours) = Nums (m0 # m1 # mrest)
       \<longrightarrow> updateTime props s now v isHours =
             Inr (afterTimeWrite s v isHours,
                  [UpdateInternalModelValue
                     (DatesV [a\<lparr>d_hours := h0, d_minutes := m0\<rparr>, b\<lparr>d_hours := h1, d_minutes := m1\<rparr>])]))
   \<and> (\<forall>d h m.
       internalModelValue props = DateV d \<and> \<not> range_prop props
       \<and> hours (afterTimeWrite s v isHours) = Num h \<and> minutes (afterTimeWrite s v isHours) = Num m
       \<longrightarrow> updateTime props s now v isHours =
             Inr (afterTimeWrite s v isHours,
                  [UpdateInternalModelValue (DateV (d\<lparr>d_hours := h, d_minutes := m\<rparr>))]))
   \<and> (range_prop props \<and> internalModelValue props \<noteq> Null \<and> \<not> isRange (internalModelValue props)
       \<longrightarrow> updateTime props s now v isHours = Inr (afterTimeWrite s v isHours, []))
   \<and> (isRange (internalModelValue props)
       \<and> (\<not> isNumberArray (hours (afterTimeWrite s v isHours))
          \<or> \<not> isNumberArray (minutes (afterTimeWrite s v isHours)))
       \<longrightarrow> updateTime props s now v isHours = Inr (afterTimeWrite s v isHours, []))"
  by (auto simp: updateTime_def handleTimeUpdate_def isRange_def Let_def afterTimeWrite_def
        isNumberArray_def timeAt_def js_index_def setDateTime_def
        split: InternalModuleValue.splits list.splits TimeState.splits)

theorem updateTime_merges_time_witness:
  "updateTime
     (ex_props\<lparr>internalModelValue := DatesV [mkDate 2024 0 5 10 30, mkDate 2024 0 10 10 30]\<rparr>)
     (useCalendar ex_props ex_now) ex_now (Nums [15, 16]) True
     = Inr ((useCalendar ex_props ex_now)\<lparr>hours := Nums [15, 16]\<rparr>,
            [UpdateInternalModelValue (DatesV [mkDate 2024 0 5 15 30, mkDate 2024 0 10 16 30])])
   \<and> updateTime
        (ex_props\<lparr>range_prop := False, internalModelValue := DateV (mkDate 2024 2 5 10 0)\<rparr>)
        ((useCalendar ex_props ex_now)\<lparr>hours := Num 10, minutes := Num 0\<rparr>) ex_now (Num 15) True
     = Inr ((useCalendar ex_props ex_now)\<lparr>hours := Num 15, minutes := Num 0\<rparr>,
            [UpdateInternalModelValue (DateV (mkDate 2024 2 5 15 0))])
   \<and> updateTime oneEndpoint (useCalendar ex_props ex_now) ex_now (Nums [15, 16]) True
     = Inr ((useCalendar ex_props ex_now)\<lparr>hours := Nums [15, 16]\<rparr>, [])"
  using
    updateTime_merges_time
      [of "ex_props\<lparr>internalModelValue := DatesV [mkDate 2024 0 5 10 30, mkDate 2024 0 10 10 30]\<rparr>"
          "useCalendar ex_props ex_now" "Nums [15, 16]" True ex_now]
    updateTime_merges_time
      [of "ex_props\<lparr>range_prop := False, internalModelValue := DateV (mkDate 2024 2 5 10 0)\<rparr>"
          "(useCalendar ex_props ex_now)\<lparr>hours := Num 10, minutes := Num 0\<rparr>" "Num 15" True ex_now]
    updateTime_merges_time [of oneEndpoint "useCalendar ex_props ex_now" "Nums [15, 16]" True ex_now]
  by (simp add: afterTimeWrite_def isRange_def oneEndpoint_def ex_defs date_defs)

subsection \<open>Shape of the time state\<close>

lemma emitFits_simps [simp]:
  "emitFits flag (UpdateInternalModelValue v) = valueFits flag v"
  "emitFits flag AutoApply = True"
  by (simp_all add: emitFits_def)

lemma useCalendar_shape: "shapeMatches props (useCalendar props now)"
  by (simp add: shapeMatches_def useCalendar_def isNumberArray_def)

lemma mapInternalModuleValues_shape:
  assumes "shapeMatches props s" and "valueFits (range_prop props) (internalModelValue props)"
  shows "shapeMatches props (mapInternalModuleValues props s)"
  using assms
  by (auto simp: shapeMatches_def valueFits_def mapInternalModuleValues_def isModelValueRange_def
        assignMonthAndYear_def
        isNumberArray_def split: InternalModuleValue.splits list.splits)

lemma deliver_wellShaped:
  assumes "wellShaped (props, s)" and "list_all (emitFits (range_prop props)) es"
  shows "wellShaped (deliver props s es)
         \<and> range_prop (fst (deliver props s es)) = range_prop props
         \<and> monthPicker (fst (deliver props s es)) = monthPicker props"
  using assms
proof (induction props s es rule: deliver.induct)
  case (1 props s)
  then show ?case by simp
next
  case (2 props s v es)
  let ?p = "props\<lparr>internalModelValue := v\<rparr>"
  from "2.prems" have fits: "valueFits (range_prop props) v" and rest: "list_all (emitFits (range_prop props)) es"
    by simp_all
  from "2.prems"(1) have sm: "shapeMatches ?p s"
    by (simp add: wellShaped_def shapeMatches_def)
  have "shapeMatches ?p (mapInternalModuleValues ?p s)"
    using mapInternalModuleValues_shape [OF sm] fits by simp
  with "2.prems"(1) fits have ws: "wellShaped (?p, mapInternalModuleValues ?p s)"
    by (simp add: wellShaped_def)
  from "2.IH" [OF refl ws] rest show ?case
    by (simp add: Let_def)
next
  case (3 props s es)
  then show ?case by simp
qed

lemma perform_wellShaped:
  assumes ws: "wellShaped (props, s)" and fits: "opFits (range_prop props) op"
  shows "\<exists>s' es. perform props s now op = Inr (s', es)
           \<and> wellShaped (props, s') \<and> list_all (emitFits (range_prop props)) es"
proof (cases op)
  case (SelectDate day)
  show ?thesis
  proof (cases "range_prop props")
    case True
    with ws have "sliceModelValue (internalModelValue props) \<noteq> Inl TypeError"
      by (auto simp: wellShaped_def valueFits_def sliceModelValue_def split: InternalModuleValue.splits)
    with ws True SelectDate show ?thesis
      by (auto simp: perform_def selectDate_def wellShaped_def shapeMatches_def 
            valueFits_def Let_def sliceModelValue_def split: sum.splits InternalModuleValue.splits)
  next
    case False
    with ws SelectDate show ?thesis
      by (auto simp: perform_def selectDate_def wellShaped_def shapeMatches_def 
            valueFits_def)
  qed
next
  case (SetHoverDate day)
  with ws show ?thesis
    by (simp add: perform_def setHoverDate_def wellShaped_def shapeMatches_def)
next
  case (UpdateMonthYear v isMonth)
  with ws show ?thesis
    by (auto simp: perform_def updateMonthYear_def wellShaped_def shapeMatches_def 
          valueFits_def Let_def split: InternalModuleValue.splits)
next
  case (UpdateTime v isHours)
  with ws fits show ?thesis
    by (auto simp: perform_def updateTime_def handleTimeUpdate_def wellShaped_def shapeMatches_def
           valueFits_def opFits_def isRange_def isNumberArray_def Let_def
          split: InternalModuleValue.splits list.splits TimeState.splits)
qed

lemma step_wellShaped:
  assumes "wellShaped ps" and "opFits (range_prop (fst ps)) (snd nop)"
  shows "\<exists>ps' es. step ps nop = Inr (ps', es) \<and> wellShaped ps'
           \<and> range_prop (fst ps') = range_prop (fst ps)"
proof -
  obtain props s where ps: "ps = (props, s)"
    by (cases ps)
  obtain s' es where p: "perform props s (fst nop) (snd nop) = Inr (s', es)"
    and ws': "wellShaped (props, s')" and es: "list_all (emitFits (range_prop props)) es"
    using perform_wellShaped [of props s "snd nop" "fst nop"] assms ps by auto
  from deliver_wellShaped [OF ws' es] p ps show ?thesis
    by (simp add: step_def)
qed

lemma run_wellShaped:
  assumes "wellShaped ps" and "list_all (\<lambda>nop. opFits (range_prop (fst ps)) (snd nop)) ops"
  shows "\<exists>ps'. run ps ops = Inr ps' \<and> wellShaped ps' \<and> range_prop (fst ps') = range_prop (fst ps)"
  using assms
proof (induction ops arbitrary: ps)
  case Nil
  then show ?case by simp
next
  case (Cons nop ops)
  from Cons.prems obtain ps1 es where st: "step ps nop = Inr (ps1, es)"
    and ws1: "wellShaped ps1" and r1: "range_prop (fst ps1) = range_prop (fst ps)"
    using step_wellShaped [of ps nop] by auto
  from Cons.prems r1 have "list_all (\<lambda>nop. opFits (range_prop (fst ps1)) (snd nop)) ops"
    by simp
  from Cons.IH [OF ws1 this] st r1 show ?case
    by simp
qed

lemma onMounted_shape:
  assumes "shapeMatches props s"
    and "valueFits (range_prop props) (internalModelValue props)"
    and "startTimeFits (range_prop props) (startTime props)"
  shows "\<exists>s0. onMounted props s = Inr s0 \<and> shapeMatches props s0"
proof -
  have m: "shapeMatches props (mapInternalModuleValues props s)"
    using mapInternalModuleValues_shape [OF assms(1) assms(2)] .
  show ?thesis
  proof (cases "internalModelValue props = Null")
    case False
    with m show ?thesis by (simp add: onMounted_def)
  next
    case True
    then have same: "mapInternalModuleValues props s = s"
      by (simp add: mapInternalModuleValues_def isModelValueRange_def)
    show ?thesis
      using assms(1) assms(3) True
      by (cases "startTime props"; cases "startDate props")
         (auto simp: onMounted_def same assignStartTime_def isTimeArr_def startTimeFits_def
            shapeMatches_def isNumberArray_def js_index_def Let_def)
  qed
qed

text \<open>
  C7 as stated fails. In range mode the state after construction and mounting has array
  hours and minutes; \<open>updateTime\<close> with a number stores the number, and hours is a
  scalar under a set range flag.
\<close>

theorem updateTime_breaks_shape:
  "range_prop ex_props
   \<and> shapeMatches ex_props (useCalendar ex_props ex_now)
   \<and> onMounted ex_props (useCalendar ex_props ex_now) = Inr (useCalendar ex_props ex_now)
   \<and> run (ex_props, useCalendar ex_props ex_now) [(ex_now, UpdateTime (Num 15) True)]
       = Inr (ex_props, (useCalendar ex_props ex_now)\<lparr>hours := Num 15\<rparr>)
   \<and> \<not> shapeMatches ex_props ((useCalendar ex_props ex_now)\<lparr>hours := Num 15\<rparr>)"
  by (simp add: shapeMatches_def onMounted_def mapInternalModuleValues_def isModelValueRange_def
        step_def perform_def
        updateTime_def handleTimeUpdate_def isRange_def ex_defs date_defs)

text \<open>
  C7, amended. After construction hours and minutes are arrays exactly when the range
  flag is set. Nothing checks the shape afterwards: it follows what the engine is
  handed. If the stored value and the start time fit the range flag, the month picker
  is not combined with range mode, and every \<open>updateTime\<close> of a sequence of
  operations passes a value that fits the flag, then mounting and the whole sequence
  run without fault and the shape matches the flag after mounting and at the end.
\<close>

theorem shape_follows_flag:
  assumes v: "valueFits (range_prop props) (internalModelValue props)"
    and t: "startTimeFits (range_prop props) (startTime props)"
    and mp: "\<not> (range_prop props \<and> monthPicker props)"
    and ops: "list_all (\<lambda>nop. opFits (range_prop props) (snd nop)) ops"
  shows "shapeMatches props (useCalendar props now)
       \<and> (\<exists>s0 props' s'.
             onMounted props (useCalendar props now) = Inr s0 \<and> shapeMatches props s0
           \<and> run (props, s0) ops = Inr (props', s')
           \<and> range_prop props' = range_prop props \<and> shapeMatches props' s')"
proof -
  obtain s0 where m: "onMounted props (useCalendar props now) = Inr s0"
    and sm: "shapeMatches props s0"
    using onMounted_shape [OF useCalendar_shape v t] by blast
  have ws: "wellShaped (props, s0)"
    using sm v mp by (simp add: wellShaped_def)
  have ops': "list_all (\<lambda>nop. opFits (range_prop (fst (props, s0))) (snd nop)) ops"
    using ops by simp
  obtain props' s' where r: "run (props, s0) ops = Inr (props', s')"
    and ws': "wellShaped (props', s')" and fl: "range_prop props' = range_prop props"
    using run_wellShaped [OF ws ops'] by auto
  from ws' have "shapeMatches props' s'"
    by (simp add: wellShaped_def)
  with m sm r fl useCalendar_shape show ?thesis
    by blast
qed

theorem shape_follows_flag_witness:
  "shapeMatches ex_props (useCalendar ex_props ex_now)
   \<and> onMounted ex_props (useCalendar ex_props ex_now) = Inr (useCalendar ex_props ex_now)
   \<and> run (ex_props, useCalendar ex_props ex_now) ex_ops
       = Inr (ex_props\<lparr>internalModelValue := DatesV [mkDate 2024 0 5 15 45, mkDate 2024 0 10 16 50]\<rparr>,
              \<lparr>today = ex_now, hoveredDate = Some (mkDate 2024 0 5 0 0), month = 0, year = 2024,
               hours = Nums [15, 16], minutes = Nums [45, 50]\<rparr>)
   \<and> shapeMatches
        (ex_props\<lparr>internalModelValue := DatesV [mkDate 2024 0 5 15 45, mkDate 2024 0 10 16 50]\<rparr>)
        \<lparr>today = ex_now, hoveredDate = Some (mkDate 2024 0 5 0 0), month = 0, year = 2024,
         hours = Nums [15, 16], minutes = Nums [45, 50]\<rparr>"
proof -
  have v: "valueFits (range_prop ex_props) (internalModelValue ex_props)"
    and t: "startTimeFits (range_prop ex_props) (startTime ex_props)"
    and mp: "\<not> (range_prop ex_props \<and> monthPicker ex_props)"
    by (simp_all add: ex_props_def valueFits_def startTimeFits_def)
  have ops: "list_all (\<lambda>nop. opFits (range_prop ex_props) (snd nop)) ex_ops"
    by (simp add: ex_ops_def opFits_def ex_props_def isNumberArray_def)
  have m: "onMounted ex_props (useCalendar ex_props ex_now) = Inr (useCalendar ex_props ex_now)"
    by (simp add: onMounted_def mapInternalModuleValues_def isModelValueRange_def ex_props_def)
  have r: "run (ex_props, useCalendar ex_props ex_now) ex_ops
       = Inr (ex_props\<lparr>internalModelValue := DatesV [mkDate 2024 0 5 15 45, mkDate 2024 0 10 16 50]\<rparr>,
              \<lparr>today = ex_now, hoveredDate = Some (mkDate 2024 0 5 0 0), month = 0, year = 2024,
               hours = Nums [15, 16], minutes = Nums [45, 50]\<rparr>)"
    by (simp add: ex_ops_def engine_defs updateTime_def handleTimeUpdate_def updateMonthYear_def
          setHoverDate_def isRange_def ex_defs date_defs Let_def)
  show ?thesis
    using shape_follows_flag [OF v t mp ops, of ex_now] m r by auto
qed

section \<open>Properties of the positioning engine\<close>

text \<open>
  C8. When the panel height plus the anchor height exceeds the free space below the
  anchor and does not exceed the space above it, \<open>positionTopBottom\<close> opens the menu
  on top and sets the top of the menu to the anchor offset minus the panel height minus
  the configured offset.
\<close>

theorem positionTopBottom_above:
  assumes "height + inputHeight > freeSpaceBottom"
    and "\<not> height + inputHeight > top_value"
  shows "openOnTop (positionTopBottom props env st height inputHeight freeSpaceBottom top_value offset)
       \<and> top_css (menuPosition
            (positionTopBottom props env st height inputHeight freeSpaceBottom top_value offset))
          = Px (offset - height - offset_prop props)"
  using assms by (simp add: positionTopBottom_def Let_def)

text \<open>A panel 300 high under an anchor 40 high at 700, with 60 free below.\<close>

theorem positionTopBottom_above_witness:
  "(300::real) + 40 > 60 \<and> \<not> (300::real) + 40 > 700
   \<and> openOnTop (positionTopBottom ex_pprops ex_env usePosition 300 40 60 700 700)
   \<and> top_css (menuPosition (positionTopBottom ex_pprops ex_env usePosition 300 40 60 700 700))
        = Px 390"
proof -
  have a: "(300::real) + 40 > 60" and b: "\<not> (300::real) + 40 > 700"
    by simp_all
  show ?thesis
    using a b positionTopBottom_above [OF a b, of ex_pprops ex_env usePosition 700]
    by (simp add: ex_pprops_def)
qed

text \<open>
  C9 as stated fails in its second case. The anchor's top, 100, does not exceed the free
  space below, 660, and \<open>setInitialPosition\<close> sets the top of the menu to the anchor's
  top offset, 100, not to the anchor's bottom, 140.
\<close>

theorem setInitialPosition_not_bottom:
  "inputEl ex_env = Some ex_input
   \<and> \<not> rect_top (boundingClientRect ex_input)
         > innerHeight ex_env - rect_top (boundingClientRect ex_input)
             - rect_height (boundingClientRect ex_input)
   \<and> top_css (menuPosition (setInitialPosition ex_pprops ex_env usePosition)) = Px 100
   \<and> fst (offsetOf ex_pprops ex_env ex_input) + rect_height (boundingClientRect ex_input) = 140
   \<and> top_css (menuPosition (setInitialPosition ex_pprops ex_env usePosition))
       \<noteq> Px (fst (offsetOf ex_pprops ex_env ex_input) + rect_height (boundingClientRect ex_input))"
  by (simp add: setInitialPosition_def setPositioning_def setPositionLeft_def offsetOf_def
        altPosition_truthy_def getOffset_def ex_env_def ex_input_def ex_pprops_def usePosition_def
        Let_def)

text \<open>
  C9, amended. With the anchor mounted, \<open>setInitialPosition\<close> computes the free space
  below the anchor as the viewport height minus the anchor's top and height; if the
  anchor's top exceeds it, the top of the menu is set 390 above the anchor's top offset,
  and otherwise to the anchor's top offset itself. In both cases the configured
  horizontal alignment is applied, and \<open>openOnTop\<close> is left as it was.
\<close>

theorem setInitialPosition_placement:
  assumes "inputEl env = Some el"
  shows "top_css (menuPosition (setInitialPosition props env st)) =
           (if rect_top (boundingClientRect el)
                 > innerHeight env - rect_top (boundingClientRect el) - rect_height (boundingClientRect el)
            then Px (fst (offsetOf props env el) - 390)
            else Px (fst (offsetOf props env el)))
       \<and> (left_css (menuPosition (setInitialPosition props env st)),
          transform (menuPosition (setInitialPosition props env st))) =
           (case position_prop props of
              OpenPosition_left \<Rightarrow> (Px (snd (offsetOf props env el)), ''translateX(0)'')
            | OpenPosition_right \<Rightarrow>
                (Px (snd (offsetOf props env el) + rect_width (boundingClientRect el)),
                 ''translateX(-100%)'')
            | OpenPosition_center \<Rightarrow>
                (Px (snd (offsetOf props env el) + rect_width (boundingClientRect el) / 2),
                 ''translateX(-50%)''))
       \<and> openOnTop (setInitialPosition props env st) = openOnTop st"
  using assms
  by (cases "position_prop props")
     (simp_all add: setInitialPosition_def setPositioning_def setPositionLeft_def
        setPositionRight_def maxHeight_def Let_def split: prod.splits)

text \<open>The anchor of the example in a viewport 800 high, and in one 200 high.\<close>

theorem setInitialPosition_placement_witness:
  "inputEl ex_env = Some ex_input
   \<and> top_css (menuPosition (setInitialPosition ex_pprops ex_env usePosition)) = Px 100
   \<and> left_css (menuPosition (setInitialPosition ex_pprops ex_env usePosition)) = Px 20
   \<and> transform (menuPosition (setInitialPosition ex_pprops ex_env usePosition)) = ''translateX(0)''
   \<and> top_css (menuPosition (setInitialPosition ex_pprops
        (ex_env\<lparr>innerHeight := 200\<rparr>) usePosition)) = Px (- 290)"
proof -
  have a: "inputEl ex_env = Some ex_input" and b: "inputEl (ex_env\<lparr>innerHeight := 200\<rparr>) = Some ex_input"
    by (simp_all add: ex_env_def)
  show ?thesis
    using a setInitialPosition_placement [OF a, of ex_pprops usePosition]
      setInitialPosition_placement [OF b, of ex_pprops usePosition]
    by (simp add: offsetOf_def altPosition_truthy_def getOffset_def ex_env_def ex_input_def
          ex_pprops_def)
qed

end
